theory Spec2Isabelle
  imports Complex_Main "HOL-Library.Sublist"
begin

section \<open>Dates and times\<close>

text \<open>
  A datetime (Python \<^verbatim>\<open>datetime\<close>, pandas \<^verbatim>\<open>Timestamp\<close>, both naive) is the number of
  nanoseconds since 1970-01-01 00:00, a Thursday. A missing timestamp (pandas \<^verbatim>\<open>NaT\<close>) is
  \<open>None\<close>; every comparison with it is false.
\<close>

type_synonym datetime = int

definition DAY :: int where
  "DAY = 86400000000000"

text \<open>\<^verbatim>\<open>d.weekday()\<close>: 0 for Monday, ..., 6 for Sunday.\<close>

definition weekday :: "datetime \<Rightarrow> int" where
  "weekday d = (d div DAY + 3) mod 7"

text \<open>\<^verbatim>\<open>pd.Timedelta(days=n)\<close> and the \<^verbatim>\<open>.days\<close> component of a difference (floor).\<close>

definition Timedelta_days :: "int \<Rightarrow> int" where
  "Timedelta_days n = n * DAY"

definition days :: "int \<Rightarrow> int" where
  "days delta = delta div DAY"

text \<open>
  Lines 114-120 of \<^verbatim>\<open>prepare_data.py\<close> (and 175-181, the same text): the Monday of the
  first week and the week number of a timestamp.
\<close>

definition first_monday :: "datetime \<Rightarrow> datetime" where
  "first_monday start_date =
     (let days_to_monday = weekday start_date
      in start_date - Timedelta_days days_to_monday)"

definition semester_week :: "datetime \<Rightarrow> datetime \<Rightarrow> int" where
  "semester_week start_date t =
     (let days_since_first_monday = days (t - first_monday start_date)
      in (days_since_first_monday div 7) + 1)"

text \<open>
  Calendar notions used to state the properties: a datetime is a date when it is a
  midnight, as \<^verbatim>\<open>datetime.strptime(s, "%Y-%m-%d")\<close> gives; the Monday-Sunday calendar
  week of a datetime is identified by the midnight that begins its Monday.
\<close>

definition is_date :: "datetime \<Rightarrow> bool" where
  "is_date d = (d mod DAY = 0)"

definition week_start :: "datetime \<Rightarrow> datetime" where
  "week_start d = (d div DAY - weekday d) * DAY"

definition same_calendar_week :: "datetime \<Rightarrow> datetime \<Rightarrow> bool" where
  "same_calendar_week a b = (week_start a = week_start b)"

section \<open>Data frames and the store\<close>

text \<open>
  A row of a DataFrame. \<open>Timestamp\<close> and \<open>Access_Type\<close> are the columns the code reads
  (\<open>None\<close> is pandas' \<^verbatim>\<open>NaT\<close>/\<^verbatim>\<open>NaN\<close>), \<open>other\<close> stands for all remaining input
  columns, and \<open>Semester\<close>, \<open>Semester_Week\<close> and \<open>Equipment_Category\<close> are the columns
  the code writes (\<open>None\<close> in a frame that does not have the column yet, and the Python
  \<^verbatim>\<open>None\<close> that line 102 stores). A DataFrame is the list of its rows, in order; the
  index labels are not modelled. Strings are ASCII.
\<close>

record 'a row =
  Timestamp :: "datetime option"
  Access_Type :: "string option"
  other :: 'a
  Semester :: "string option"
  Semester_Week :: "int option"
  Equipment_Category :: "string option"

type_synonym 'a frame = "'a row list"

type_synonym term_range = "string \<times> datetime \<times> datetime"

text \<open>What the code prints.\<close>

datatype key_error =
  No_term_data | No_semester_name | No_sessions | No_start_date | No_end_date | Key_0

datatype message =
    Removed_rows nat
  | Enhanced_data_saved string
  | Normalized_equipment_names
  | Categorization_summary nat nat
  | Api_request_failed int
  | Key_error int key_error
  | Date_parsing_error int

text \<open>
  DataFrames are objects: the store is the list of all frames allocated so far, an
  address is a position in it. The world also holds the standard output and the files
  written by \<^verbatim>\<open>to_csv\<close> (by path; failures of the file system are not modelled).
\<close>

type_synonym addr = nat

record 'a world =
  heap :: "'a frame list"
  stdout :: "message list"
  files :: "string \<rightharpoonup> 'a frame"

definition new_frame :: "'a frame \<Rightarrow> 'a world \<Rightarrow> addr \<times> 'a world" where
  "new_frame rows w = (length (heap w), w\<lparr>heap := heap w @ [rows]\<rparr>)"

text \<open>\<^verbatim>\<open>df.copy()\<close>: a new object with the same contents.\<close>

definition copy :: "addr \<Rightarrow> 'a world \<Rightarrow> addr \<times> 'a world" where
  "copy df w = new_frame (heap w ! df) w"

text \<open>An assignment into the object at an address, in place.\<close>

definition modify :: "addr \<Rightarrow> ('a frame \<Rightarrow> 'a frame) \<Rightarrow> 'a world \<Rightarrow> 'a world" where
  "modify a f w = w\<lparr>heap := (heap w)[a := f (heap w ! a)]\<rparr>"

definition print :: "message \<Rightarrow> 'a world \<Rightarrow> 'a world" where
  "print m w = w\<lparr>stdout := stdout w @ [m]\<rparr>"

definition to_csv :: "addr \<Rightarrow> string \<Rightarrow> 'a world \<Rightarrow> 'a world" where
  "to_csv a path w = w\<lparr>files := (files w)(path \<mapsto> heap w ! a)\<rparr>"

text \<open>\<^verbatim>\<open>if output_file_path:\<close> is false for \<^verbatim>\<open>None\<close> and for the empty string.\<close>

fun save_if_path :: "string option \<Rightarrow> addr \<Rightarrow> 'a world \<Rightarrow> 'a world" where
  "save_if_path None a w = w"
| "save_if_path (Some path) a w =
     (if path = [] then w else print (Enhanced_data_saved path) (to_csv a path w))"

section \<open>prepare\_data.py\<close>

subsection \<open>clean\_and\_load\<close>

text \<open>
  \<^verbatim>\<open>drop_duplicates()\<close> keeps the first occurrence of every row, in order
  (\<open>remdups\<close> would keep the last).
\<close>

fun drop_duplicates_from :: "'r list \<Rightarrow> 'r list \<Rightarrow> 'r list" where
  "drop_duplicates_from seen [] = []"
| "drop_duplicates_from seen (r # rs) =
     (if r \<in> set seen then drop_duplicates_from seen rs
      else r # drop_duplicates_from (r # seen) rs)"

definition drop_duplicates :: "'r list \<Rightarrow> 'r list" where
  "drop_duplicates rows = drop_duplicates_from [] rows"

text \<open>The mask \<^verbatim>\<open>(df["Timestamp"] >= lo) & (df["Timestamp"] <= hi)\<close> of one row.\<close>

definition between :: "datetime \<Rightarrow> datetime \<Rightarrow> datetime option \<Rightarrow> bool" where
  "between lo hi ts = (case ts of None \<Rightarrow> False | Some t \<Rightarrow> lo \<le> t \<and> t \<le> hi)"

text \<open>
  \<open>clean_and_load\<close>, from the rows that \<^verbatim>\<open>pd.read_csv\<close> parsed from the file (reading and
  parsing the file are not modelled).
\<close>

definition clean_and_load :: "'a frame \<Rightarrow> datetime \<Rightarrow> datetime \<Rightarrow> 'a frame" where
  "clean_and_load csv_rows covid_start covid_end =
     (let df = csv_rows;
          df = drop_duplicates df;
          df = filter (\<lambda>r. \<not> between covid_start covid_end (Timestamp r)) df
      in df)"

subsection \<open>add\_semester\_info\<close>

text \<open>\<^verbatim>\<open>df.loc[mask, column] = ...\<close>: the rows where the mask holds are updated.\<close>

definition loc_update :: "bool list \<Rightarrow> ('r \<Rightarrow> 'r) \<Rightarrow> 'r list \<Rightarrow> 'r list" where
  "loc_update mask' f rows = map (\<lambda>(b, r). if b then f r else r) (zip mask' rows)"

text \<open>The body of the loop over the sorted terms (lines 107-120, and 168-181).\<close>

definition assign_term :: "term_range \<Rightarrow> 'a frame \<Rightarrow> 'a frame" where
  "assign_term tr enhanced_df =
     (case tr of (semester_name, start_date, end_date) \<Rightarrow>
        let mask' = map (\<lambda>r. between start_date end_date (Timestamp r)) enhanced_df;
            enhanced_df = loc_update mask' (\<lambda>r. r\<lparr>Semester := Some semester_name\<rparr>) enhanced_df;
            enhanced_df = loc_update mask'
              (\<lambda>r. case Timestamp r of
                     None \<Rightarrow> r
                   | Some t \<Rightarrow> r\<lparr>Semester_Week := Some (semester_week start_date t)\<rparr>)
              enhanced_df
        in enhanced_df)"

text \<open>\<^verbatim>\<open>sorted(terms_data, key=lambda x: x[1])\<close>: a stable sort by start date.\<close>

definition sorted_by_start :: "term_range list \<Rightarrow> term_range list" where
  "sorted_by_start terms_data = sort_key (\<lambda>x. fst (snd x)) terms_data"

definition add_semester_info ::
  "addr \<Rightarrow> term_range list \<Rightarrow> string option \<Rightarrow> 'a world \<Rightarrow> addr \<times> 'a world" where
  "add_semester_info df terms_data output_file_path w =
     (let (enhanced_df, w) = copy df w;
          w = modify enhanced_df (map (\<lambda>r. r\<lparr>Semester := Some ''Unknown''\<rparr>)) w;
          w = modify enhanced_df (map (\<lambda>r. r\<lparr>Semester_Week := None\<rparr>)) w;
          sorted_terms = sorted_by_start terms_data;
          w = foldl (\<lambda>w tr. modify enhanced_df (assign_term tr) w) w sorted_terms;
          rows_before = length (heap w ! enhanced_df);
          (enhanced_df, w) =
            new_frame (filter (\<lambda>r. Semester r \<noteq> Some ''Unknown'') (heap w ! enhanced_df)) w;
          rows_removed = rows_before - length (heap w ! enhanced_df);
          w = print (Removed_rows rows_removed) w;
          w = save_if_path output_file_path enhanced_df w
      in (enhanced_df, w))"

subsection \<open>add\_equipment\_category\<close>

text \<open>The exceptions that the code lets escape to its caller.\<close>

datatype py_error = AttributeError | TypeError | IndexError | ValueError | KeyError

text \<open>The dictionary of lines 214-245, in insertion order.\<close>

definition equipment_categories :: "(string \<times> string) list" where
  "equipment_categories =
     [(''Jacobs Connex'', ''Advanced 3D Printing''),
      (''Jacobs Dimension'', ''Advanced 3D Printing''),
      (''Jacobs Form 3'', ''Advanced 3D Printing''),
      (''Jacobs Fortus'', ''Advanced 3D Printing''),
      (''Jacobs FabLight Laser'', ''Advanced Prototyping''),
      (''Jacobs OMAX Waterjet'', ''Advanced Prototyping''),
      (''Jacobs Shopbot'', ''Advanced Prototyping''),
      (''Jacobs Type A'', ''Basic 3D Printing''),
      (''Jacobs DiWire'', ''Basic Prototyping''),
      (''Jacobs Inkjet'', ''Basic Prototyping''),
      (''Jacobs Vinyl Cutter'', ''Basic Prototyping''),
      (''Jacobs Laser Access'', ''Laser Cutting''),
      (''Jacobs Metal Shop'', ''Metal Shop''),
      (''Jacobs Wood Shop'', ''Wood Shop''),
      (''Jacobs MakerPass Access'', ''Entry'')]"

text \<open>\<^verbatim>\<open>str.lower()\<close> on ASCII strings.\<close>

definition lower_char :: "char \<Rightarrow> char" where
  "lower_char c =
     (let n = (of_char c :: nat) in if 65 \<le> n \<and> n \<le> 90 then char_of (n + 32) else c)"

definition lower :: "string \<Rightarrow> string" where
  "lower s = map lower_char s"

text \<open>The loop of lines 254-259: the first key that occurs in the name, else \<^verbatim>\<open>Other\<close>.\<close>

fun partial_match :: "(string \<times> string) list \<Rightarrow> string \<Rightarrow> string" where
  "partial_match [] access_type = ''Other''"
| "partial_match ((equip, category) # items) access_type =
     (if sublist (lower equip) (lower access_type) then category
      else partial_match items access_type)"

text \<open>
  \<open>map_equipment_category\<close>. A missing value (the float \<^verbatim>\<open>NaN\<close>) is not a key of the
  dictionary, and the loop then calls \<^verbatim>\<open>.lower()\<close> on it: \<^verbatim>\<open>AttributeError\<close>.
\<close>

definition map_equipment_category :: "string option \<Rightarrow> py_error + string" where
  "map_equipment_category access_type =
     (case access_type of
        None \<Rightarrow> Inl AttributeError
      | Some a \<Rightarrow>
         (case map_of equipment_categories a of
            Some category \<Rightarrow> Inr category
          | None \<Rightarrow> Inr (partial_match equipment_categories a)))"

text \<open>\<^verbatim>\<open>Series.apply(f)\<close>: \<open>f\<close> on every element in order, stopping at the first exception.\<close>

fun apply_series :: "('x \<Rightarrow> py_error + 'y) \<Rightarrow> 'x list \<Rightarrow> py_error + 'y list" where
  "apply_series f [] = Inr []"
| "apply_series f (x # xs) =
     (case f x of
        Inl e \<Rightarrow> Inl e
      | Inr y \<Rightarrow> (case apply_series f xs of Inl e \<Rightarrow> Inl e | Inr ys \<Rightarrow> Inr (y # ys)))"

definition nunique :: "'x list \<Rightarrow> nat" where
  "nunique xs = length (remdups xs)"

text \<open>
  \<open>add_equipment_category\<close>. Its five \<^verbatim>\<open>print\<close> calls are one message, with the two
  counts; the table of \<^verbatim>\<open>value_counts()\<close> is not modelled.
\<close>

definition add_equipment_category :: "addr \<Rightarrow> 'a world \<Rightarrow> (py_error + addr) \<times> 'a world" where
  "add_equipment_category df w =
     (let (enhanced_df, w) = copy df w
      in case apply_series map_equipment_category (map Access_Type (heap w ! enhanced_df)) of
           Inl e \<Rightarrow> (Inl e, w)
         | Inr categories \<Rightarrow>
            (let w = modify enhanced_df
                       (\<lambda>rows. map (\<lambda>(r, c). r\<lparr>Equipment_Category := Some c\<rparr>)
                                   (zip rows categories)) w;
                 w = print (Categorization_summary
                              (nunique (map Access_Type (heap w ! enhanced_df)))
                              (nunique (map Equipment_Category (heap w ! enhanced_df)))) w
             in (Inr enhanced_df, w)))"

subsection \<open>enhance\_dataset\<close>

definition equipment_normalization :: "(string \<times> string) list" where
  "equipment_normalization =
     [(''Jacobs DiWire Room 220C'', ''Jacobs DiWire''),
      (''Jacobs Vinyl Cutter and Inkjet'', ''Jacobs Vinyl Cutter'')]"

text \<open>\<^verbatim>\<open>Series.replace(dict)\<close> on one value: a value that is a key is replaced.\<close>

definition replace_value :: "(string \<times> string) list \<Rightarrow> string option \<Rightarrow> string option" where
  "replace_value d v =
     (case v of
        None \<Rightarrow> None
      | Some s \<Rightarrow> (case map_of d s of None \<Rightarrow> Some s | Some s' \<Rightarrow> Some s'))"

definition enhance_dataset ::
  "addr \<Rightarrow> term_range list \<Rightarrow> string option \<Rightarrow> 'a world \<Rightarrow> (py_error + addr) \<times> 'a world" where
  "enhance_dataset df terms_data output_file_path w =
     (let (enhanced_df, w) = copy df w;
          w = modify enhanced_df
                (map (\<lambda>r. r\<lparr>Access_Type := replace_value equipment_normalization (Access_Type r)\<rparr>)) w;
          w = print Normalized_equipment_names w;
          w = modify enhanced_df (map (\<lambda>r. r\<lparr>Semester := Some ''Unknown''\<rparr>)) w;
          w = modify enhanced_df (map (\<lambda>r. r\<lparr>Semester_Week := None\<rparr>)) w;
          sorted_terms = sorted_by_start terms_data;
          w = foldl (\<lambda>w tr. modify enhanced_df (assign_term tr) w) w sorted_terms;
          rows_before = length (heap w ! enhanced_df);
          (enhanced_df, w) =
            new_frame (filter (\<lambda>r. Semester r \<noteq> Some ''Unknown'') (heap w ! enhanced_df)) w;
          rows_removed = rows_before - length (heap w ! enhanced_df);
          w = print (Removed_rows rows_removed) w;
          (result, w) = add_equipment_category enhanced_df w
      in case result of
           Inl e \<Rightarrow> (Inl e, w)
         | Inr enhanced_df \<Rightarrow> (Inr enhanced_df, save_if_path output_file_path enhanced_df w))"

subsection \<open>Notions used to state the properties of the assignment\<close>

text \<open>A timestamp lies in the range of a term, both ends included.\<close>

definition in_term :: "term_range \<Rightarrow> datetime \<Rightarrow> bool" where
  "in_term tr t =
     (case tr of (semester_name, start_date, end_date) \<Rightarrow> start_date \<le> t \<and> t \<le> end_date)"

text \<open>
  The first and the last term, in the order of \<open>sorted_by_start\<close>, whose range holds a
  timestamp.
\<close>

definition first_matching_term :: "term_range list \<Rightarrow> datetime \<Rightarrow> term_range option" where
  "first_matching_term terms_data t = find (\<lambda>tr. in_term tr t) (sorted_by_start terms_data)"

definition last_matching_term :: "term_range list \<Rightarrow> datetime \<Rightarrow> term_range option" where
  "last_matching_term terms_data t =
     find (\<lambda>tr. in_term tr t) (rev (sorted_by_start terms_data))"

text \<open>
  The row that the assignment is to produce from an input row: none when the timestamp is
  missing, lies in no term, or the term is called \<^verbatim>\<open>Unknown\<close>.
\<close>

definition assigned_row :: "term_range list \<Rightarrow> 'a row \<Rightarrow> 'a row option" where
  "assigned_row terms_data r =
     (case Timestamp r of
        None \<Rightarrow> None
      | Some t \<Rightarrow>
         (case last_matching_term terms_data t of
            None \<Rightarrow> None
          | Some (semester_name, start_date, end_date) \<Rightarrow>
              if semester_name = ''Unknown'' then None
              else Some (r\<lparr>Semester := Some semester_name,
                          Semester_Week := Some (semester_week start_date t)\<rparr>)))"

text \<open>The frame that a call returns: the object at the returned address.\<close>

definition result_frame :: "addr \<times> 'a world \<Rightarrow> 'a frame" where
  "result_frame res = heap (snd res) ! fst res"

text \<open>The number of the Monday-Sunday week of a datetime, counted from the epoch.\<close>

definition week_index :: "datetime \<Rightarrow> int" where
  "week_index d = (d div DAY + 3) div 7"

text \<open>What one iteration of the loop does to one row, and the stages of the frame.\<close>

definition assign_row :: "term_range \<Rightarrow> 'a row \<Rightarrow> 'a row" where
  "assign_row tr r =
     (case tr of (semester_name, start_date, end_date) \<Rightarrow>
        (case Timestamp r of
           None \<Rightarrow> r
         | Some t \<Rightarrow>
             if start_date \<le> t \<and> t \<le> end_date
             then r\<lparr>Semester := Some semester_name,
                    Semester_Week := Some (semester_week start_date t)\<rparr>
             else r))"

definition initial_columns :: "'a frame \<Rightarrow> 'a frame" where
  "initial_columns rows =
     map (\<lambda>r. r\<lparr>Semester := Some ''Unknown'', Semester_Week := None\<rparr>) rows"

definition labelled_frame :: "term_range list \<Rightarrow> 'a frame \<Rightarrow> 'a frame" where
  "labelled_frame terms_data rows =
     foldl (\<lambda>rows tr. assign_term tr rows) (initial_columns rows) (sorted_by_start terms_data)"

definition known :: "'a frame \<Rightarrow> 'a frame" where
  "known rows = filter (\<lambda>r. Semester r \<noteq> Some ''Unknown'') rows"

text \<open>The stages of \<open>enhance_dataset\<close>, and the columns that the properties compare.\<close>

definition normalized :: "'a frame \<Rightarrow> 'a frame" where
  "normalized rows =
     map (\<lambda>r. r\<lparr>Access_Type := replace_value equipment_normalization (Access_Type r)\<rparr>) rows"

definition with_categories :: "'a frame \<Rightarrow> string list \<Rightarrow> 'a frame" where
  "with_categories rows categories =
     map (\<lambda>(r, c). r\<lparr>Equipment_Category := Some c\<rparr>) (zip rows categories)"

definition semester_columns :: "'a row \<Rightarrow> string option \<times> int option" where
  "semester_columns r = (Semester r, Semester_Week r)"

definition untouched_columns ::
  "'a row \<Rightarrow> datetime option \<times> string option \<times> 'a \<times> string option" where
  "untouched_columns r = (Timestamp r, Access_Type r, other r, Equipment_Category r)"

definition within_a_term :: "term_range list \<Rightarrow> 'a row \<Rightarrow> bool" where
  "within_a_term terms_data r =
     (case Timestamp r of
        None \<Rightarrow> False
      | Some t \<Rightarrow> \<exists>tr \<in> set terms_data. in_term tr t)"

definition named :: "'a row \<Rightarrow> bool" where
  "named r = (case Semester r of None \<Rightarrow> False | Some n \<Rightarrow> n \<noteq> ''Unknown'')"

section \<open>analyze\_usage.py: identify\_peak\_weeks\<close>

text \<open>
  A row of \<^verbatim>\<open>weekly_stats\<close>: the index label (the week number) and the two columns that
  \<open>identify_peak_weeks\<close> reads. \<^verbatim>\<open>avg_usage\<close> is a float that is not \<^verbatim>\<open>NaN\<close> (a mean of
  counts); only its order is used, so it is any linearly ordered value. The index labels
  are distinct, as \<^verbatim>\<open>groupby\<close> builds them.
\<close>

record 'v week_stats =
  week :: int
  avg_usage :: 'v
  num_semesters :: int

text \<open>
  \<^verbatim>\<open>idxmax()\<close> and \<^verbatim>\<open>idxmin()\<close>: the label of the first row that holds the largest
  (smallest) value; \<^verbatim>\<open>ValueError\<close> on an empty series.
\<close>

fun first_largest :: "('v::linorder) week_stats \<Rightarrow> 'v week_stats list \<Rightarrow> 'v week_stats" where
  "first_largest best [] = best"
| "first_largest best (r # rs) =
     first_largest (if avg_usage best < avg_usage r then r else best) rs"

fun first_smallest :: "('v::linorder) week_stats \<Rightarrow> 'v week_stats list \<Rightarrow> 'v week_stats" where
  "first_smallest best [] = best"
| "first_smallest best (r # rs) =
     first_smallest (if avg_usage r < avg_usage best then r else best) rs"

definition idxmax :: "('v::linorder) week_stats list \<Rightarrow> py_error + int" where
  "idxmax rows = (case rows of [] \<Rightarrow> Inl ValueError | r # rs \<Rightarrow> Inr (week (first_largest r rs)))"

definition idxmin :: "('v::linorder) week_stats list \<Rightarrow> py_error + int" where
  "idxmin rows = (case rows of [] \<Rightarrow> Inl ValueError | r # rs \<Rightarrow> Inr (week (first_smallest r rs)))"

text \<open>\<^verbatim>\<open>weekly_stats.loc[label, "avg_usage"]\<close>.\<close>

definition loc_avg_usage :: "'v week_stats list \<Rightarrow> int \<Rightarrow> py_error + 'v" where
  "loc_avg_usage rows label =
     (case find (\<lambda>r. week r = label) rows of
        None \<Rightarrow> Inl KeyError
      | Some r \<Rightarrow> Inr (avg_usage r))"

text \<open>\<^verbatim>\<open>max()\<close> of a series that is not empty.\<close>

fun series_max :: "int \<Rightarrow> int list \<Rightarrow> int" where
  "series_max m [] = m"
| "series_max m (x # xs) = series_max (max m x) xs"

text \<open>
  \<open>identify_peak_weeks\<close>. The comparison \<^verbatim>\<open>num_semesters >= 0.75 * max\<close> is exact in
  floating point for counts below \<open>2 ^ 51\<close>; it is written over the rationals.
\<close>

definition identify_peak_weeks ::
  "('v::linorder) week_stats list \<Rightarrow> py_error + ((int \<times> 'v) \<times> (int \<times> 'v))" where
  "identify_peak_weeks weekly_stats =
     (case idxmax weekly_stats of
        Inl e \<Rightarrow> Inl e
      | Inr highest_idx \<Rightarrow>
     (case loc_avg_usage weekly_stats highest_idx of
        Inl e \<Rightarrow> Inl e
      | Inr highest_avg \<Rightarrow>
     (case weekly_stats of
        [] \<Rightarrow> Inl ValueError
      | r # rs \<Rightarrow>
     (let highest_week = (highest_idx, highest_avg);
          most = series_max (num_semesters r) (map num_semesters rs);
          common_weeks =
            filter (\<lambda>r. (3 / 4 :: rat) * of_int most \<le> of_int (num_semesters r)) weekly_stats
      in case idxmin common_weeks of
           Inl e \<Rightarrow> Inl e
         | Inr lowest_idx \<Rightarrow>
        (case loc_avg_usage weekly_stats lowest_idx of
           Inl e \<Rightarrow> Inl e
         | Inr lowest_avg \<Rightarrow> Inr (highest_week, (lowest_idx, lowest_avg)))))))"

text \<open>The weeks that appear in at least 75% of the largest number of semesters.\<close>

definition common_week :: "'v week_stats list \<Rightarrow> 'v week_stats \<Rightarrow> bool" where
  "common_week weekly_stats r =
     ((3 / 4 :: rat) * of_int (Max (set (map num_semesters weekly_stats)))
        \<le> of_int (num_semesters r))"

section \<open>api\_integration.py: fetch\_terms\<close>















section \<open>Concrete inputs\<close>

text \<open>
  Dates are written as day numbers: 19723 is Monday 2024-01-01, 19738 is Tuesday
  2024-01-16, 19744 is Monday 2024-01-22.
\<close>

definition example_terms :: "term_range list" where
  "example_terms =
     [(''Fall 2024'', 19961 * DAY, 20077 * DAY), (''Spring 2024'', 19738 * DAY, 19853 * DAY)]"

definition example_row :: "datetime \<Rightarrow> string \<Rightarrow> unit row" where
  "example_row t a =
     \<lparr>Timestamp = Some t, Access_Type = Some a, other = (),
      Semester = None, Semester_Week = None, Equipment_Category = None\<rparr>"

definition example_world :: "unit world" where
  "example_world =
     \<lparr>heap = [[example_row (19744 * DAY + 36000000000000) ''Jacobs Wood Shop'',
               example_row (19900 * DAY) ''Jacobs Laser Access'']],
      stdout = [], files = Map.empty\<rparr>"

definition overlapping_terms :: "term_range list" where
  "overlapping_terms =
     [(''B'', 19740 * DAY, 19800 * DAY), (''A'', 19738 * DAY, 19853 * DAY)]"

definition other_world :: "unit world" where
  "other_world =
     \<lparr>heap = [[], [example_row (19744 * DAY + 36000000000000) ''Jacobs Wood Shop'',
                   example_row (19900 * DAY) ''Jacobs Laser Access'']],
      stdout = [Removed_rows 7], files = Map.empty\<rparr>"

definition covid_rows :: "unit row list" where
  "covid_rows =
     [example_row (18300 * DAY) ''Jacobs Wood Shop'',
      example_row (18335 * DAY) ''Jacobs Wood Shop'',
      example_row (18300 * DAY) ''Jacobs Wood Shop'',
      example_row (18865 * DAY) ''Jacobs Wood Shop'',
      example_row (18865 * DAY + 1) ''Jacobs Metal Shop'']"

definition example_stats :: "rat week_stats list" where
  "example_stats =
     [\<lparr>week = 1, avg_usage = 10, num_semesters = 4\<rparr>,
      \<lparr>week = 2, avg_usage = 61 / 2, num_semesters = 4\<rparr>,
      \<lparr>week = 3, avg_usage = 5, num_semesters = 3\<rparr>,
      \<lparr>week = 4, avg_usage = 1, num_semesters = 2\<rparr>]"






section \<open>Properties of the week arithmetic\<close>

lemma DAY_pos: "0 < DAY"
  by (simp add: DAY_def)

lemma weekday_range: "0 \<le> weekday d \<and> weekday d < 7"
  by (simp add: weekday_def)

lemma first_monday_le: "first_monday s \<le> s"
  using weekday_range [of s] DAY_pos
  by (simp add: first_monday_def Timedelta_days_def)

lemma first_monday_date: "is_date s \<Longrightarrow> first_monday s = week_start s"
proof -
  assume "is_date s"
  then have "s = (s div DAY) * DAY"
    by (simp add: is_date_def) (metis add.right_neutral div_mult_mod_eq)
  then show ?thesis
    by (simp add: first_monday_def week_start_def Timedelta_days_def left_diff_distrib)
qed

lemma week_of_day_zero: "((q::int) + 3 - (q + 3) mod 7) mod 7 = 0"
  by presburger

lemma week_start_div: "week_start d div DAY = d div DAY - weekday d"
  using DAY_pos by (simp add: week_start_def)

lemma week_start_multiple_of_week:
  "\<exists>k. week_start d = (7 * k - 3) * DAY"
proof -
  have "(d div DAY + 3 - weekday d) mod 7 = 0"
    unfolding weekday_def by (rule week_of_day_zero)
  then obtain k where "d div DAY + 3 - weekday d = 7 * k"
    by (metis mod_eq_0_iff_dvd dvdE)
  then have "d div DAY - weekday d = 7 * k - 3" by simp
  then show ?thesis by (auto simp: week_start_def)
qed

lemma week_start_index: "week_start d = (7 * week_index d - 3) * DAY"
proof -
  have "q - (q + 3) mod 7 = 7 * ((q + 3) div 7) - 3" for q :: int
    by presburger
  then show ?thesis by (simp add: week_start_def weekday_def week_index_def)
qed

lemma sub_multiple_div: "(t - c * DAY) div DAY = t div DAY - c"
  using DAY_pos by (metis add.commute diff_conv_add_uminus div_mult_self1 less_irrefl mult_minus_left)

lemma semester_week_date:
  assumes "is_date s"
  shows "semester_week s t = week_index t - week_index s + 1"
proof -
  have "first_monday s = (7 * week_index s - 3) * DAY"
    using assms by (simp add: first_monday_date week_start_index)
  then have "days (t - first_monday s) = t div DAY - (7 * week_index s - 3)"
    by (simp add: days_def sub_multiple_div)
  moreover have "(q - (7 * k - 3)) div 7 = (q + 3) div 7 - k" for q k :: int
    by presburger
  ultimately have "days (t - first_monday s) div 7 = week_index t - week_index s"
    by (simp add: week_index_def)
  then show ?thesis by (simp add: semester_week_def)
qed

lemma same_calendar_week_index: "same_calendar_week a b = (week_index a = week_index b)"
  using DAY_pos by (auto simp: same_calendar_week_def week_start_index)

lemma semester_week_formula:
  "semester_week s t = (t - (s - weekday s * DAY)) div (7 * DAY) + 1"
proof -
  have "(t - first_monday s) div DAY div 7 = (t - first_monday s) div (DAY * 7)"
    by (rule zdiv_zmult2_eq [symmetric]) simp
  then show ?thesis
    by (simp add: semester_week_def days_def first_monday_def Timedelta_days_def mult.commute)
qed

lemma semester_week_ge_1:
  assumes "s \<le> t" shows "1 \<le> semester_week s t"
proof -
  have "0 \<le> t - first_monday s" using first_monday_le [of s] assms by simp
  then have "0 \<le> days (t - first_monday s)"
    using DAY_pos by (simp add: days_def pos_imp_zdiv_nonneg_iff)
  then have "0 \<le> days (t - first_monday s) div 7" by simp
  then show ?thesis by (simp add: semester_week_def)
qed

lemma semester_week_calendar:
  assumes "is_date s"
  shows "week_start t = week_start s + (semester_week s t - 1) * (7 * DAY)"
  by (simp add: semester_week_date [OF assms] week_start_index algebra_simps)


section \<open>The assignment loop, row by row\<close>

lemma loc_update_map: "loc_update (map p rows) f rows = map (\<lambda>r. if p r then f r else r) rows"
  by (induction rows) (simp_all add: loc_update_def)

lemma loc_update_map2:
  "loc_update (map p rows) f (map g rows) = map (\<lambda>r. if p r then f (g r) else g r) rows"
  by (induction rows) (simp_all add: loc_update_def)

lemma assign_term_rows: "assign_term tr rows = map (assign_row tr) rows"
proof -
  obtain n s e where tr: "tr = (n, s, e)" by (cases tr) auto
  show ?thesis
    unfolding tr assign_term_def assign_row_def
    by (simp add: Let_def loc_update_map loc_update_map2 between_def split: option.splits)
qed

lemma assign_loop_rows:
  "foldl (\<lambda>rows tr. assign_term tr rows) rows ts = map (\<lambda>r. foldl (\<lambda>r tr. assign_row tr r) r ts) rows"
  by (induction ts arbitrary: rows) (simp_all add: assign_term_rows comp_def)

lemma modify_loop:
  "a < length (heap w) \<Longrightarrow>
   foldl (\<lambda>w tr. modify a (f tr) w) w ts =
   w\<lparr>heap := (heap w)[a := foldl (\<lambda>rows tr. f tr rows) (heap w ! a) ts]\<rparr>"
  by (induction ts arbitrary: w) (simp_all add: modify_def)

lemma assign_row_None: "Timestamp r = None \<Longrightarrow> assign_row tr r = r"
  by (cases tr) (simp add: assign_row_def)

lemma assign_row_Some:
  "Timestamp r = Some t \<Longrightarrow>
   assign_row (n, s, e) r =
     (if in_term (n, s, e) t then r\<lparr>Semester := Some n, Semester_Week := Some (semester_week s t)\<rparr> else r)"
  by (simp add: assign_row_def in_term_def)

lemma assign_row_fold_None:
  "Timestamp r = None \<Longrightarrow> foldl (\<lambda>r tr. assign_row tr r) r ts = r"
  by (induction ts rule: rev_induct) (simp_all add: assign_row_None)

lemma assign_row_fold_Some:
  "Timestamp r = Some t \<Longrightarrow>
   foldl (\<lambda>r tr. assign_row tr r) r ts =
     (case find (\<lambda>tr. in_term tr t) (rev ts) of
        None \<Rightarrow> r
      | Some (n, s, e) \<Rightarrow> r\<lparr>Semester := Some n, Semester_Week := Some (semester_week s t)\<rparr>)"
proof (induction ts rule: rev_induct)
  case Nil
  then show ?case by simp
next
  case (snoc tr ts)
  obtain n s e where tr: "tr = (n, s, e)" by (cases tr) auto
  let ?r' = "foldl (\<lambda>r tr. assign_row tr r) r ts"
  have ts': "Timestamp ?r' = Some t"
    using snoc by (auto split: option.splits)
  show ?case
  proof (cases "in_term tr t")
    case True
    have "assign_row tr ?r' = ?r'\<lparr>Semester := Some n, Semester_Week := Some (semester_week s t)\<rparr>"
      using True by (simp add: tr assign_row_Some [OF ts'])
    also have "\<dots> = r\<lparr>Semester := Some n, Semester_Week := Some (semester_week s t)\<rparr>"
      using snoc by (auto split: option.splits)
    finally show ?thesis using True by (simp add: tr)
  next
    case False
    then have "assign_row tr ?r' = ?r'"
      by (simp add: tr assign_row_Some [OF ts'])
    then show ?thesis using False snoc by simp
  qed
qed


lemma modify_new: "modify (length h) f (w\<lparr>heap := h @ [x]\<rparr>) = w\<lparr>heap := h @ [f x]\<rparr>"
  by (simp add: modify_def)

lemma modify_loop_new:
  "foldl (\<lambda>w tr. modify (length h) (f tr) w) (w\<lparr>heap := h @ [x]\<rparr>) ts =
   w\<lparr>heap := h @ [foldl (\<lambda>rows tr. f tr rows) x ts]\<rparr>"
  by (induction ts arbitrary: x) (simp_all add: modify_new)

lemma add_semester_info_run:
  assumes "df < length (heap w)"
  shows "add_semester_info df terms_data output_file_path w =
     (let E = labelled_frame terms_data (heap w ! df); a = Suc (length (heap w))
      in (a, save_if_path output_file_path a
               (w\<lparr>heap := heap w @ [E, known E],
                  stdout := stdout w @ [Removed_rows (length E - length (known E))]\<rparr>)))"
  using assms
  by (simp add: add_semester_info_def copy_def new_frame_def modify_new modify_loop_new print_def
      Let_def nth_append labelled_frame_def initial_columns_def known_def comp_def)

lemma heap_save_if_path: "heap (save_if_path p a w) = heap w"
  by (cases p) (simp_all add: print_def to_csv_def)

lemma result_frame_add_semester_info:
  assumes "df < length (heap w)"
  shows "result_frame (add_semester_info df terms_data output_file_path w) =
         known (labelled_frame terms_data (heap w ! df))"
  by (simp add: add_semester_info_run [OF assms] result_frame_def Let_def heap_save_if_path
      nth_append)

lemma labelled_row:
  "labelled_frame terms_data rows =
     map (\<lambda>r. case Timestamp r of
                 None \<Rightarrow> r\<lparr>Semester := Some ''Unknown'', Semester_Week := None\<rparr>
               | Some t \<Rightarrow>
                  (case last_matching_term terms_data t of
                     None \<Rightarrow> r\<lparr>Semester := Some ''Unknown'', Semester_Week := None\<rparr>
                   | Some (n, s, e) \<Rightarrow>
                       r\<lparr>Semester := Some n, Semester_Week := Some (semester_week s t)\<rparr>)) rows"
  unfolding labelled_frame_def assign_loop_rows initial_columns_def map_map comp_def
  by (rule map_cong [OF refl])
     (auto simp: assign_row_fold_None assign_row_fold_Some last_matching_term_def
           split: option.splits)

lemma known_labelled:
  "known (labelled_frame terms_data rows) = List.map_filter (assigned_row terms_data) rows"
  unfolding labelled_row
  by (induction rows)
     (auto simp: known_def List.map_filter_simps assigned_row_def split: option.splits)

section \<open>The last matching term\<close>

lemmas evaluation =
  result_frame_add_semester_info known_labelled List.map_filter_simps assigned_row_def
  last_matching_term_def first_matching_term_def sorted_by_start_def in_term_def
  semester_week_def first_monday_def days_def weekday_def Timedelta_days_def DAY_def
  is_date_def week_start_def same_calendar_week_def

lemma example_result:
  "result_frame (add_semester_info 0 example_terms None example_world) =
     [(example_row (19744 * DAY + 36000000000000) ''Jacobs Wood Shop'')
        \<lparr>Semester := Some ''Spring 2024'', Semester_Week := Some 2\<rparr>]"
  by (simp add: evaluation example_world_def example_terms_def example_row_def)

lemma overlapping_result:
  "result_frame (add_semester_info 0 overlapping_terms None example_world) =
     [(example_row (19744 * DAY + 36000000000000) ''Jacobs Wood Shop'')
        \<lparr>Semester := Some ''B'', Semester_Week := Some 2\<rparr>]"
  by (simp add: evaluation example_world_def overlapping_terms_def example_row_def)

lemma find_Some_member: "find P xs = Some x \<Longrightarrow> x \<in> set xs \<and> P x"
  by (induction xs) (auto split: if_splits)

lemma last_matching_term_Some:
  assumes "last_matching_term terms_data t = Some tr"
  shows "tr \<in> set terms_data \<and> in_term tr t"
proof -
  from assms have "tr \<in> set (rev (sorted_by_start terms_data)) \<and> in_term tr t"
    unfolding last_matching_term_def by (rule find_Some_member)
  then show ?thesis by (simp add: sorted_by_start_def)
qed

lemma last_matching_term_None:
  "last_matching_term terms_data t = None \<longleftrightarrow> (\<forall>tr \<in> set terms_data. \<not> in_term tr t)"
  by (auto simp: last_matching_term_def find_None_iff sorted_by_start_def)

lemma find_rev_sorted_max:
  assumes "sorted (map f xs)" and "find P (rev xs) = Some x" and "y \<in> set xs" and "P y"
  shows "f y \<le> f x"
  using assms
proof (induction xs rule: rev_induct)
  case Nil
  then show ?case by simp
next
  case (snoc z zs)
  show ?case
  proof (cases "P z")
    case True
    then have "x = z" using snoc.prems(2) by simp
    moreover have "f y \<le> f z"
      using snoc.prems(1,3) by (auto simp: sorted_append)
    ultimately show ?thesis by simp
  next
    case False
    then have "find P (rev zs) = Some x" using snoc.prems(2) by simp
    moreover have "y \<in> set zs" using snoc.prems(3,4) False by auto
    moreover have "sorted (map f zs)" using snoc.prems(1) by (simp add: sorted_append)
    ultimately show ?thesis using snoc.IH snoc.prems(4) by blast
  qed
qed

lemma last_matching_term_latest:
  assumes "last_matching_term terms_data t = Some tr" and "tr' \<in> set terms_data" and "in_term tr' t"
  shows "fst (snd tr') \<le> fst (snd tr)"
proof -
  have s: "sorted (map (\<lambda>x. fst (snd x)) (sorted_by_start terms_data))"
    by (simp add: sorted_by_start_def)
  have m: "tr' \<in> set (sorted_by_start terms_data)"
    using assms(2) by (simp add: sorted_by_start_def)
  have f: "find (\<lambda>tr. in_term tr t) (rev (sorted_by_start terms_data)) = Some tr"
    using assms(1) by (simp add: last_matching_term_def)
  show ?thesis
    by (rule find_rev_sorted_max [OF s f m assms(3)])
qed

lemma last_matching_term_unique:
  assumes "tr \<in> set terms_data" and "in_term tr t"
    and "\<forall>tr' \<in> set terms_data. in_term tr' t \<longrightarrow> tr' = tr"
  shows "last_matching_term terms_data t = Some tr"
proof (cases "last_matching_term terms_data t")
  case None
  then show ?thesis using assms(1,2) by (simp add: last_matching_term_None)
next
  case (Some tr')
  then show ?thesis using last_matching_term_Some [OF Some] assms(3) by auto
qed

lemma assigned_row_Some:
  assumes "assigned_row terms_data r0 = Some r"
  shows "\<exists>t n s e. Timestamp r0 = Some t \<and> last_matching_term terms_data t = Some (n, s, e) \<and>
           n \<noteq> ''Unknown'' \<and> r = r0\<lparr>Semester := Some n, Semester_Week := Some (semester_week s t)\<rparr>"
  using assms by (auto simp: assigned_row_def split: option.splits if_splits)

lemma in_map_filter: "y \<in> set (List.map_filter f xs) \<longleftrightarrow> (\<exists>x \<in> set xs. f x = Some y)"
  by (induction xs) (auto simp: List.map_filter_simps split: option.splits)

lemma result_row:
  assumes "df < length (heap w)"
    and "r \<in> set (result_frame (add_semester_info df terms_data output_file_path w))"
  shows "\<exists>r0 t n s e. r0 \<in> set (heap w ! df) \<and> Timestamp r0 = Some t \<and>
           last_matching_term terms_data t = Some (n, s, e) \<and> n \<noteq> ''Unknown'' \<and>
           r = r0\<lparr>Semester := Some n, Semester_Week := Some (semester_week s t)\<rparr>"
proof -
  from assms obtain r0 where "r0 \<in> set (heap w ! df)" and "assigned_row terms_data r0 = Some r"
    by (auto simp: result_frame_add_semester_info known_labelled in_map_filter)
  then show ?thesis using assigned_row_Some by blast
qed

lemma returned_row_week:
  assumes "df < length (heap w)"
    and "r \<in> set (result_frame (add_semester_info df terms_data output_file_path w))"
  shows "\<exists>t semester_name start_date end_date.
           Timestamp r = Some t \<and>
           last_matching_term terms_data t = Some (semester_name, start_date, end_date) \<and>
           Semester r = Some semester_name \<and>
           Semester_Week r =
             Some ((t - (start_date - weekday start_date * DAY)) div (7 * DAY) + 1) \<and>
           1 \<le> (t - (start_date - weekday start_date * DAY)) div (7 * DAY) + 1 \<and>
           (is_date start_date \<longrightarrow>
              week_start t = week_start start_date +
                ((t - (start_date - weekday start_date * DAY)) div (7 * DAY)) * (7 * DAY))"
proof -
  from result_row [OF assms] obtain r0 t n s e where
    t: "Timestamp r0 = Some t" and l: "last_matching_term terms_data t = Some (n, s, e)"
    and r: "r = r0\<lparr>Semester := Some n, Semester_Week := Some (semester_week s t)\<rparr>"
    by blast
  have "in_term (n, s, e) t" using last_matching_term_Some [OF l] by simp
  then have "s \<le> t" by (simp add: in_term_def)
  then have ge: "1 \<le> semester_week s t" by (rule semester_week_ge_1)
  have cal: "is_date s \<longrightarrow> week_start t = week_start s + (semester_week s t - 1) * (7 * DAY)"
    using semester_week_calendar by blast
  show ?thesis
    using t l r ge cal unfolding semester_week_formula [of s t]
    by (intro exI [of _ t] exI [of _ n] exI [of _ s] exI [of _ e]) simp
qed

section \<open>Removing duplicates\<close>

lemma drop_duplicates_from_set:
  "set (drop_duplicates_from seen rs) = set rs - set seen"
  by (induction rs arbitrary: seen) auto

lemma drop_duplicates_from_distinct: "distinct (drop_duplicates_from seen rs)"
  by (induction rs arbitrary: seen) (auto simp: drop_duplicates_from_set)

lemma drop_duplicates_from_subseq: "subseq (drop_duplicates_from seen rs) rs"
  by (induction rs arbitrary: seen) auto

lemma clean_and_load_filter:
  "clean_and_load rows cs ce =
     filter (\<lambda>r. \<not> between cs ce (Timestamp r)) (drop_duplicates rows)"
  by (simp add: clean_and_load_def)

lemma covid_rows_cleaned:
  "clean_and_load covid_rows (18335 * DAY) (18865 * DAY) =
     [example_row (18300 * DAY) ''Jacobs Wood Shop'',
      example_row (18865 * DAY + 1) ''Jacobs Metal Shop'']"
  by (simp add: clean_and_load_def drop_duplicates_def covid_rows_def example_row_def
      between_def DAY_def)

section \<open>The store after a call\<close>

lemma add_equipment_category_run:
  assumes "df < length (heap w)"
  shows "add_equipment_category df w =
     (case apply_series map_equipment_category (map Access_Type (heap w ! df)) of
        Inl e \<Rightarrow> (Inl e, w\<lparr>heap := heap w @ [heap w ! df]\<rparr>)
      | Inr categories \<Rightarrow>
          (Inr (length (heap w)),
           w\<lparr>heap := heap w @ [with_categories (heap w ! df) categories],
              stdout := stdout w @
                [Categorization_summary
                   (nunique (map Access_Type (with_categories (heap w ! df) categories)))
                   (nunique (map Equipment_Category (with_categories (heap w ! df) categories)))]\<rparr>))"
  using assms
  by (simp add: add_equipment_category_def copy_def new_frame_def modify_new print_def
      with_categories_def nth_append split: sum.splits)

lemma modify_loop_unfolded:
  "a < length (heap w) \<Longrightarrow>
   foldl (\<lambda>w tr. w\<lparr>heap := (heap w)[a := f tr (heap w ! a)]\<rparr>) w ts =
   w\<lparr>heap := (heap w)[a := foldl (\<lambda>rows tr. f tr rows) (heap w ! a) ts]\<rparr>"
  by (induction ts arbitrary: w) simp_all

lemma enhance_dataset_run:
  assumes "df < length (heap w)"
  shows "enhance_dataset df terms_data output_file_path w =
     (let E = labelled_frame terms_data (normalized (heap w ! df));
          (result, w') = add_equipment_category (Suc (length (heap w)))
             (w\<lparr>heap := heap w @ [E, known E],
                stdout := stdout w @
                  [Normalized_equipment_names, Removed_rows (length E - length (known E))]\<rparr>)
      in case result of
           Inl e \<Rightarrow> (Inl e, w')
         | Inr a \<Rightarrow> (Inr a, save_if_path output_file_path a w'))"
  using assms
  by (simp add: enhance_dataset_def copy_def new_frame_def modify_def modify_loop_unfolded
      print_def Let_def nth_append labelled_frame_def initial_columns_def known_def
      normalized_def comp_def)

lemma apply_series_length: "apply_series f xs = Inr ys \<Longrightarrow> length ys = length xs"
  by (induction xs arbitrary: ys) (auto split: sum.splits)

lemma with_categories_semester:
  "length categories = length rows \<Longrightarrow>
   map semester_columns (with_categories rows categories) = map semester_columns rows"
  by (induction rows categories rule: list_induct2')
     (simp_all add: with_categories_def semester_columns_def)

lemma with_categories_member:
  assumes "r \<in> set (with_categories rows categories)"
  shows "\<exists>k c. k \<in> set rows \<and> r = k\<lparr>Equipment_Category := Some c\<rparr>"
  using assms by (auto simp: with_categories_def dest: set_zip_leftD)

lemma enhance_dataset_heap:
  assumes "df < length (heap w)"
  shows "\<exists>X. heap (snd (enhance_dataset df terms_data output_file_path w)) =
           heap w @ [labelled_frame terms_data (normalized (heap w ! df)),
                     known (labelled_frame terms_data (normalized (heap w ! df))), X] \<and>
         (\<forall>a. fst (enhance_dataset df terms_data output_file_path w) = Inr a \<longrightarrow>
            a = length (heap w) + 2 \<and>
            (\<exists>categories.
               length categories =
                 length (known (labelled_frame terms_data (normalized (heap w ! df)))) \<and>
               X = with_categories
                     (known (labelled_frame terms_data (normalized (heap w ! df)))) categories))"
proof -
  let ?K = "known (labelled_frame terms_data (normalized (heap w ! df)))"
  show ?thesis
  proof (cases "apply_series map_equipment_category (map Access_Type ?K)")
    case (Inl e)
    then show ?thesis
      using assms
      by (simp add: enhance_dataset_run add_equipment_category_run Let_def nth_append)
  next
    case (Inr categories)
    then have "length categories = length ?K"
      by (auto dest: apply_series_length)
    then show ?thesis
      using assms Inr
      by (auto simp: enhance_dataset_run add_equipment_category_run Let_def nth_append
          heap_save_if_path)
  qed
qed

lemma labelled_semester_columns:
  "map semester_columns (labelled_frame terms_data rows) =
     map (\<lambda>r. case Timestamp r of
                 None \<Rightarrow> (Some ''Unknown'', None)
               | Some t \<Rightarrow>
                  (case last_matching_term terms_data t of
                     None \<Rightarrow> (Some ''Unknown'', None)
                   | Some (n, s, e) \<Rightarrow> (Some n, Some (semester_week s t)))) rows"
  unfolding labelled_row map_map comp_def
  by (rule map_cong [OF refl]) (auto simp: semester_columns_def split: option.splits)

lemma labelled_normalized:
  "map semester_columns (labelled_frame terms_data (normalized rows)) =
   map semester_columns (labelled_frame terms_data rows)"
  unfolding labelled_semester_columns by (simp add: normalized_def comp_def)

lemma known_semester_columns:
  "map semester_columns (known rows) =
     filter (\<lambda>c. fst c \<noteq> Some ''Unknown'') (map semester_columns rows)"
  by (induction rows) (simp_all add: known_def semester_columns_def)

lemma known_normalized:
  "map semester_columns (known (labelled_frame terms_data (normalized rows))) =
   map semester_columns (known (labelled_frame terms_data rows))"
  by (simp add: known_semester_columns labelled_normalized)

lemma add_semester_info_heap:
  assumes "df < length (heap w)"
  shows "heap (snd (add_semester_info df terms_data output_file_path w)) =
           heap w @ [labelled_frame terms_data (heap w ! df),
                     known (labelled_frame terms_data (heap w ! df))]"
  by (simp add: add_semester_info_run [OF assms] Let_def heap_save_if_path)

lemma known_labelled_member:
  assumes "r \<in> set (known (labelled_frame terms_data rows))"
  shows "\<exists>r0 t n s e. r0 \<in> set rows \<and> Timestamp r0 = Some t \<and>
           last_matching_term terms_data t = Some (n, s, e) \<and> n \<noteq> ''Unknown'' \<and>
           r = r0\<lparr>Semester := Some n, Semester_Week := Some (semester_week s t)\<rparr>"
proof -
  from assms obtain r0 where "r0 \<in> set rows" and "assigned_row terms_data r0 = Some r"
    by (auto simp: known_labelled in_map_filter)
  then show ?thesis using assigned_row_Some by blast
qed

lemma known_labelled_within:
  assumes "r \<in> set (known (labelled_frame terms_data rows))"
  shows "named r \<and> within_a_term terms_data r"
proof -
  from known_labelled_member [OF assms] obtain r0 t n s e where
    t: "Timestamp r0 = Some t" and l: "last_matching_term terms_data t = Some (n, s, e)"
    and n: "n \<noteq> ''Unknown''"
    and r: "r = r0\<lparr>Semester := Some n, Semester_Week := Some (semester_week s t)\<rparr>"
    by blast
  from last_matching_term_Some [OF l] have "\<exists>tr \<in> set terms_data. in_term tr t" by blast
  then show ?thesis using t n r by (simp add: named_def within_a_term_def)
qed

lemma normalized_Timestamp: "map Timestamp (normalized rows) = map Timestamp rows"
  by (simp add: normalized_def comp_def)

lemma labelled_unmatched:
  assumes "r \<in> set (labelled_frame terms_data rows)" and "\<not> within_a_term terms_data r"
  shows "Semester r = Some ''Unknown''"
proof -
  from assms(1) obtain r0 where r0: "r0 \<in> set rows" and
    r: "r = (case Timestamp r0 of
                 None \<Rightarrow> r0\<lparr>Semester := Some ''Unknown'', Semester_Week := None\<rparr>
               | Some t \<Rightarrow>
                  (case last_matching_term terms_data t of
                     None \<Rightarrow> r0\<lparr>Semester := Some ''Unknown'', Semester_Week := None\<rparr>
                   | Some (n, s, e) \<Rightarrow>
                       r0\<lparr>Semester := Some n, Semester_Week := Some (semester_week s t)\<rparr>))"
    unfolding labelled_row by auto
  show ?thesis
  proof (cases "Timestamp r0")
    case None
    then show ?thesis using r by simp
  next
    case (Some t)
    show ?thesis
    proof (cases "last_matching_term terms_data t")
      case None
      then show ?thesis using r Some by simp
    next
      case (Some tr)
      obtain n s e where tr: "tr = (n, s, e)" by (cases tr) auto
      have "Timestamp r = Some t" using r \<open>Timestamp r0 = Some t\<close> Some tr by simp
      moreover have "tr \<in> set terms_data \<and> in_term tr t"
        using last_matching_term_Some [OF Some] .
      ultimately have "within_a_term terms_data r"
        by (auto simp: within_a_term_def)
      then show ?thesis using assms(2) by simp
    qed
  qed
qed

lemma example_enhanced:
  "fst (enhance_dataset 0 example_terms None example_world) = Inr 3 \<and>
   heap (snd (enhance_dataset 0 example_terms None example_world)) ! 3 =
     [(example_row (19744 * DAY + 36000000000000) ''Jacobs Wood Shop'')
        \<lparr>Semester := Some ''Spring 2024'', Semester_Week := Some 2,
          Equipment_Category := Some ''Wood Shop''\<rparr>]"
  by (simp add: enhance_dataset_run add_equipment_category_run Let_def known_labelled
      normalized_def replace_value_def equipment_normalization_def
      map_equipment_category_def equipment_categories_def with_categories_def
      example_world_def example_terms_def example_row_def evaluation)

section \<open>The first largest and the first smallest row\<close>

lemma first_largest_member: "first_largest b rs \<in> set (b # rs)"
  by (induction rs arbitrary: b) auto

lemma first_largest_ge_all:
  "\<forall>r \<in> set (b # rs). avg_usage r \<le> avg_usage (first_largest b rs)"
proof (induction rs arbitrary: b)
  case Nil
  then show ?case by simp
next
  case (Cons x xs)
  let ?b = "if avg_usage b < avg_usage x then x else b"
  have IH: "\<forall>r \<in> set (?b # xs). avg_usage r \<le> avg_usage (first_largest ?b xs)"
    by (rule Cons.IH)
  then have top: "avg_usage ?b \<le> avg_usage (first_largest ?b xs)" by simp
  have "avg_usage b \<le> avg_usage ?b" and "avg_usage x \<le> avg_usage ?b" by auto
  then have "avg_usage b \<le> avg_usage (first_largest ?b xs)"
    and "avg_usage x \<le> avg_usage (first_largest ?b xs)"
    using top by (blast intro: order_trans)+
  then show ?case using IH by (simp del: if_split)
qed

lemma first_largest_ge: "r \<in> set (b # rs) \<Longrightarrow> avg_usage r \<le> avg_usage (first_largest b rs)"
  using first_largest_ge_all by blast

lemma first_smallest_member: "first_smallest b rs \<in> set (b # rs)"
  by (induction rs arbitrary: b) auto

lemma first_smallest_le_all:
  "\<forall>r \<in> set (b # rs). avg_usage (first_smallest b rs) \<le> avg_usage r"
proof (induction rs arbitrary: b)
  case Nil
  then show ?case by simp
next
  case (Cons x xs)
  let ?b = "if avg_usage x < avg_usage b then x else b"
  have IH: "\<forall>r \<in> set (?b # xs). avg_usage (first_smallest ?b xs) \<le> avg_usage r"
    by (rule Cons.IH)
  then have top: "avg_usage (first_smallest ?b xs) \<le> avg_usage ?b" by simp
  have "avg_usage ?b \<le> avg_usage b" and "avg_usage ?b \<le> avg_usage x" by auto
  then have "avg_usage (first_smallest ?b xs) \<le> avg_usage b"
    and "avg_usage (first_smallest ?b xs) \<le> avg_usage x"
    using top by (blast intro: order_trans)+
  then show ?case using IH by (simp del: if_split)
qed

lemma first_smallest_le: "r \<in> set (b # rs) \<Longrightarrow> avg_usage (first_smallest b rs) \<le> avg_usage r"
  using first_smallest_le_all by blast

lemma series_max_Max: "series_max m xs = Max (set (m # xs))"
proof (induction xs arbitrary: m)
  case Nil
  then show ?case by simp
next
  case (Cons x xs)
  have "Max (set (max m x # xs)) = Max (set (m # x # xs))"
    by (cases "xs = []") (simp_all add: max.assoc Max_insert)
  then show ?case using Cons by simp
qed

lemma loc_distinct:
  "distinct (map week rows) \<Longrightarrow> r \<in> set rows \<Longrightarrow> loc_avg_usage rows (week r) = Inr (avg_usage r)"
proof (induction rows)
  case Nil
  then show ?case by simp
next
  case (Cons x xs)
  then show ?case by (auto simp: loc_avg_usage_def)
qed


lemma common_week_series_max:
  "common_week (r # rs) x =
     ((3 / 4 :: rat) * of_int (series_max (num_semesters r) (map num_semesters rs))
        \<le> of_int (num_semesters x))"
  by (simp add: common_week_def series_max_Max)

section \<open>The loop of fetch\_terms\<close>




section \<open>Claims\<close>

text \<open>
  C2. \<open>add_semester_info\<close> computes the week number by the formula. Every input row whose
  timestamp \<open>t\<close> is assigned to a term (the last one, by start date, whose range holds
  \<open>t\<close>, not called \<^verbatim>\<open>Unknown\<close>) is returned with that term's name and with
  \<open>Semester_Week\<close> equal to the floor of \<open>(t - Monday_on_or_before(start_date)) / 7 days\<close>,
  plus one, where \<open>Monday_on_or_before(start_date)\<close> is \<open>start_date\<close> minus
  \<open>start_date.weekday()\<close> days; every returned row is such a row, and the returned column
  is the column of these values, in order. The value is at least 1, and when \<open>start_date\<close>
  is a date (a midnight) it numbers the Monday-Sunday calendar weeks: the week of \<open>t\<close>
  begins \<open>Semester_Week - 1\<close> weeks after the week of \<open>start_date\<close> begins.
\<close>

theorem semester_week_formula_holds:
  assumes "df < length (heap w)"
  shows "(\<forall>r \<in> set (result_frame (add_semester_info df terms_data output_file_path w)).
            \<exists>t semester_name start_date end_date.
              Timestamp r = Some t \<and>
              last_matching_term terms_data t = Some (semester_name, start_date, end_date) \<and>
              Semester r = Some semester_name \<and>
              Semester_Week r =
                Some ((t - (start_date - weekday start_date * DAY)) div (7 * DAY) + 1) \<and>
              1 \<le> (t - (start_date - weekday start_date * DAY)) div (7 * DAY) + 1 \<and>
              (is_date start_date \<longrightarrow>
                 week_start t = week_start start_date +
                   ((t - (start_date - weekday start_date * DAY)) div (7 * DAY)) * (7 * DAY))) \<and>
         (\<forall>r0 \<in> set (heap w ! df). \<forall>t semester_name start_date end_date.
            Timestamp r0 = Some t \<and>
            last_matching_term terms_data t = Some (semester_name, start_date, end_date) \<and>
            semester_name \<noteq> ''Unknown'' \<longrightarrow>
            r0\<lparr>Semester := Some semester_name,
               Semester_Week :=
                 Some ((t - (start_date - weekday start_date * DAY)) div (7 * DAY) + 1)\<rparr>
              \<in> set (result_frame (add_semester_info df terms_data output_file_path w))) \<and>
         map Semester_Week (result_frame (add_semester_info df terms_data output_file_path w)) =
           map Semester_Week (List.map_filter (assigned_row terms_data) (heap w ! df))"
proof (intro conjI ballI allI impI)
  fix r assume "r \<in> set (result_frame (add_semester_info df terms_data output_file_path w))"
  with assms show "\<exists>t semester_name start_date end_date.
              Timestamp r = Some t \<and>
              last_matching_term terms_data t = Some (semester_name, start_date, end_date) \<and>
              Semester r = Some semester_name \<and>
              Semester_Week r =
                Some ((t - (start_date - weekday start_date * DAY)) div (7 * DAY) + 1) \<and>
              1 \<le> (t - (start_date - weekday start_date * DAY)) div (7 * DAY) + 1 \<and>
              (is_date start_date \<longrightarrow>
                 week_start t = week_start start_date +
                   ((t - (start_date - weekday start_date * DAY)) div (7 * DAY)) * (7 * DAY))"
    by (rule returned_row_week)
next
  fix r0 :: "'a row" and t semester_name start_date end_date
  assume r0: "r0 \<in> set (heap w ! df)"
    and h: "Timestamp r0 = Some t \<and>
            last_matching_term terms_data t = Some (semester_name, start_date, end_date) \<and>
            semester_name \<noteq> ''Unknown''"
  then have "assigned_row terms_data r0 =
      Some (r0\<lparr>Semester := Some semester_name,
                Semester_Week := Some (semester_week start_date t)\<rparr>)"
    by (simp add: assigned_row_def)
  then have "r0\<lparr>Semester := Some semester_name,
                Semester_Week := Some (semester_week start_date t)\<rparr>
      \<in> set (List.map_filter (assigned_row terms_data) (heap w ! df))"
    using r0 in_map_filter by fastforce
  then show "r0\<lparr>Semester := Some semester_name,
               Semester_Week :=
                 Some ((t - (start_date - weekday start_date * DAY)) div (7 * DAY) + 1)\<rparr>
              \<in> set (result_frame (add_semester_info df terms_data output_file_path w))"
    using assms
    by (simp only: result_frame_add_semester_info known_labelled semester_week_formula)
next
  show "map Semester_Week (result_frame (add_semester_info df terms_data output_file_path w)) =
           map Semester_Week (List.map_filter (assigned_row terms_data) (heap w ! df))"
    using assms by (simp only: result_frame_add_semester_info known_labelled)
qed

theorem semester_week_formula_holds_witness:
  "(0::nat) < length (heap example_world) \<and>
   example_row (19744 * DAY + 36000000000000) ''Jacobs Wood Shop''
     \<in> set (heap example_world ! 0) \<and>
   Timestamp (example_row (19744 * DAY + 36000000000000) ''Jacobs Wood Shop'') =
     Some (19744 * DAY + 36000000000000) \<and>
   last_matching_term example_terms (19744 * DAY + 36000000000000) =
     Some (''Spring 2024'', 19738 * DAY, 19853 * DAY) \<and>
   ''Spring 2024'' \<noteq> ''Unknown'' \<and>
   (19744 * DAY + 36000000000000 - (19738 * DAY - weekday (19738 * DAY) * DAY))
      div (7 * DAY) + 1 = 2 \<and>
   (example_row (19744 * DAY + 36000000000000) ''Jacobs Wood Shop'')
      \<lparr>Semester := Some ''Spring 2024'', Semester_Week := Some 2\<rparr>
     \<in> set (result_frame (add_semester_info 0 example_terms None example_world)) \<and>
   map Semester_Week (result_frame (add_semester_info 0 example_terms None example_world)) =
     [Some 2] \<and>
   is_date (19738 * DAY) \<and>
   week_start (19744 * DAY + 36000000000000) = week_start (19738 * DAY) + 1 * (7 * DAY)"
proof -
  let ?t = "19744 * DAY + 36000000000000"
  let ?r0 = "example_row ?t ''Jacobs Wood Shop''"
  have h: "(0::nat) < length (heap example_world)" by (simp add: example_world_def)
  note inst = semester_week_formula_holds [OF h, of example_terms None]
  have m: "?r0 \<in> set (heap example_world ! 0)" by (simp add: example_world_def)
  have ts: "Timestamp ?r0 = Some ?t" by (simp add: example_row_def)
  have l: "last_matching_term example_terms ?t = Some (''Spring 2024'', 19738 * DAY, 19853 * DAY)"
    by (simp add: example_terms_def evaluation)
  have n: "''Spring 2024'' \<noteq> ''Unknown''" by simp
  have wk: "(?t - (19738 * DAY - weekday (19738 * DAY) * DAY)) div (7 * DAY) + 1 = 2"
    by (simp add: evaluation)
  have "?r0\<lparr>Semester := Some ''Spring 2024'',
            Semester_Week :=
              Some ((?t - (19738 * DAY - weekday (19738 * DAY) * DAY)) div (7 * DAY) + 1)\<rparr>
          \<in> set (result_frame (add_semester_info 0 example_terms None example_world))"
    using inst m ts l n by blast
  then have member: "?r0\<lparr>Semester := Some ''Spring 2024'', Semester_Week := Some 2\<rparr>
          \<in> set (result_frame (add_semester_info 0 example_terms None example_world))"
    by (simp only: wk)
  have "map Semester_Week (result_frame (add_semester_info 0 example_terms None example_world)) =
          map Semester_Week (List.map_filter (assigned_row example_terms) (heap example_world ! 0))"
    using inst by blast
  then have weeks:
    "map Semester_Week (result_frame (add_semester_info 0 example_terms None example_world)) =
       [Some 2]"
    by (simp add: example_world_def example_terms_def example_row_def evaluation)
  have d: "is_date (19738 * DAY)" by (simp add: evaluation)
  have c: "week_start ?t = week_start (19738 * DAY) + 1 * (7 * DAY)" by (simp add: evaluation)
  show ?thesis using h m ts l n wk member weeks d c by (intro conjI)
qed

text \<open>
  C1, as stated, fails: with two overlapping terms, a timestamp in both ranges gets the
  name of the one that starts later, not of the first one in the order of start dates.
\<close>

theorem first_match_does_not_win:
  "first_matching_term overlapping_terms (19744 * DAY + 36000000000000) =
     Some (''A'', 19738 * DAY, 19853 * DAY) \<and>
   map Semester (result_frame (add_semester_info 0 overlapping_terms None example_world)) =
     [Some ''B'']"
  by (simp add: overlapping_result example_row_def)
     (simp add: overlapping_terms_def evaluation)

text \<open>
  C1, amended. \<open>add_semester_info\<close> returns, in order, the input rows whose timestamp lies
  in the range \<open>start \<le> T \<le> end\<close> of some term (both boundary dates included), each with the
  name and week of the last term, in the order of start dates, whose range holds the
  timestamp: each iteration of the loop overwrites what an earlier one assigned. That term
  has the latest start among the matching ones, and it is the matching term when there is
  only one. Rows with no timestamp, in no range, or whose term is called \<^verbatim>\<open>Unknown\<close>
  are removed.
\<close>

theorem last_match_wins:
  assumes "df < length (heap w)"
  shows "result_frame (add_semester_info df terms_data output_file_path w) =
           List.map_filter (assigned_row terms_data) (heap w ! df) \<and>
         (\<forall>t tr. last_matching_term terms_data t = Some tr \<longrightarrow>
            tr \<in> set terms_data \<and> in_term tr t \<and>
            (\<forall>tr' \<in> set terms_data. in_term tr' t \<longrightarrow> fst (snd tr') \<le> fst (snd tr))) \<and>
         (\<forall>t. last_matching_term terms_data t = None \<longrightarrow>
            (\<forall>tr \<in> set terms_data. \<not> in_term tr t)) \<and>
         (\<forall>t tr. tr \<in> set terms_data \<and> in_term tr t \<and>
            (\<forall>tr' \<in> set terms_data. in_term tr' t \<longrightarrow> tr' = tr) \<longrightarrow>
            last_matching_term terms_data t = Some tr) \<and>
         (\<forall>n s e. s \<le> e \<longrightarrow> in_term (n, s, e) s \<and> in_term (n, s, e) e)"
proof (intro conjI allI impI ballI)
  show "result_frame (add_semester_info df terms_data output_file_path w) =
          List.map_filter (assigned_row terms_data) (heap w ! df)"
    using assms by (simp only: result_frame_add_semester_info known_labelled)
next
  fix t tr assume "last_matching_term terms_data t = Some tr"
  then show "tr \<in> set terms_data" and "in_term tr t"
    using last_matching_term_Some by blast+
next
  fix t tr tr'
  assume "last_matching_term terms_data t = Some tr" "tr' \<in> set terms_data" "in_term tr' t"
  then show "fst (snd tr') \<le> fst (snd tr)" by (rule last_matching_term_latest)
next
  fix t tr
  assume "last_matching_term terms_data t = None" "tr \<in> set terms_data"
  then show "\<not> in_term tr t" by (simp add: last_matching_term_None)
next
  fix t tr
  assume "tr \<in> set terms_data \<and> in_term tr t \<and>
    (\<forall>tr' \<in> set terms_data. in_term tr' t \<longrightarrow> tr' = tr)"
  then show "last_matching_term terms_data t = Some tr"
    by (blast intro: last_matching_term_unique)
next
  fix n :: string and s e :: datetime assume "s \<le> e"
  then show "in_term (n, s, e) s" and "in_term (n, s, e) e" by (simp_all add: in_term_def)
qed

theorem last_match_wins_witness:
  "(0::nat) < length (heap example_world) \<and>
   result_frame (add_semester_info 0 overlapping_terms None example_world) =
     [(example_row (19744 * DAY + 36000000000000) ''Jacobs Wood Shop'')
        \<lparr>Semester := Some ''B'', Semester_Week := Some 2\<rparr>] \<and>
   last_matching_term overlapping_terms (19744 * DAY + 36000000000000) =
     Some (''B'', 19740 * DAY, 19800 * DAY) \<and>
   in_term (''A'', 19738 * DAY, 19853 * DAY) (19744 * DAY + 36000000000000) \<and>
   in_term (''B'', 19740 * DAY, 19800 * DAY) (19740 * DAY) \<and>
   in_term (''B'', 19740 * DAY, 19800 * DAY) (19800 * DAY)"
proof -
  have h: "(0::nat) < length (heap example_world)"
    by (simp add: example_world_def)
  have "result_frame (add_semester_info 0 overlapping_terms None example_world) =
          List.map_filter (assigned_row overlapping_terms) (heap example_world ! 0)"
    using last_match_wins [OF h, of overlapping_terms None] by (rule conjunct1)
  then show ?thesis
    using h by (simp add: example_world_def overlapping_terms_def example_row_def evaluation)
qed

text \<open>
  C3. The \<open>Semester\<close> and \<open>Semester_Week\<close> columns that the loop of \<open>enhance_dataset\<close>
  writes are those that the loop of \<open>add_semester_info\<close> writes, on every input frame and
  term list: the frame that the loop works on (the copy, at the first new address) has the
  same two columns in both, and when \<open>enhance_dataset\<close> returns a frame, its two columns are
  those of the frame that \<open>add_semester_info\<close> returns. The normalization of
  \<open>Access_Type\<close> does not reach them.
\<close>

theorem enhance_dataset_same_semester_columns:
  assumes "df < length (heap w)"
  shows "map semester_columns
           (heap (snd (enhance_dataset df terms_data output_file_path w)) ! length (heap w)) =
         map semester_columns
           (heap (snd (add_semester_info df terms_data output_file_path' w)) ! length (heap w)) \<and>
         (\<forall>a. fst (enhance_dataset df terms_data output_file_path w) = Inr a \<longrightarrow>
            map semester_columns
              (heap (snd (enhance_dataset df terms_data output_file_path w)) ! a) =
            map semester_columns
              (result_frame (add_semester_info df terms_data output_file_path' w)))"
proof (intro conjI allI impI)
  from enhance_dataset_heap [OF assms, of terms_data output_file_path]
  have "heap (snd (enhance_dataset df terms_data output_file_path w)) ! length (heap w) =
          labelled_frame terms_data (normalized (heap w ! df))"
    by (auto simp: nth_append)
  then show "map semester_columns
           (heap (snd (enhance_dataset df terms_data output_file_path w)) ! length (heap w)) =
         map semester_columns
           (heap (snd (add_semester_info df terms_data output_file_path' w)) ! length (heap w))"
    using assms by (simp add: add_semester_info_heap labelled_normalized)
next
  fix a assume a: "fst (enhance_dataset df terms_data output_file_path w) = Inr a"
  let ?K = "known (labelled_frame terms_data (normalized (heap w ! df)))"
  from enhance_dataset_heap [OF assms, of terms_data output_file_path] a
  obtain categories where "length categories = length ?K" and
    "heap (snd (enhance_dataset df terms_data output_file_path w)) ! a =
       with_categories ?K categories"
    by (auto simp: nth_append)
  then have "map semester_columns
       (heap (snd (enhance_dataset df terms_data output_file_path w)) ! a) =
     map semester_columns ?K"
    by (simp add: with_categories_semester)
  then show "map semester_columns
              (heap (snd (enhance_dataset df terms_data output_file_path w)) ! a) =
            map semester_columns
              (result_frame (add_semester_info df terms_data output_file_path' w))"
    using assms by (simp add: result_frame_add_semester_info known_normalized)
qed

theorem enhance_dataset_same_semester_columns_witness:
  "(0::nat) < length (heap example_world) \<and>
   fst (enhance_dataset 0 example_terms None example_world) = Inr 3 \<and>
   map semester_columns (heap (snd (enhance_dataset 0 example_terms None example_world)) ! 3) =
     [(Some ''Spring 2024'', Some 2)] \<and>
   map semester_columns (result_frame (add_semester_info 0 example_terms None example_world)) =
     [(Some ''Spring 2024'', Some 2)]"
proof -
  have h: "(0::nat) < length (heap example_world)" by (simp add: example_world_def)
  have "map semester_columns
          (heap (snd (enhance_dataset 0 example_terms None example_world)) ! 3) =
        map semester_columns
          (result_frame (add_semester_info 0 example_terms None example_world))"
    using enhance_dataset_same_semester_columns [OF h, of example_terms None None]
      example_enhanced by blast
  then show ?thesis
    using h by (simp add: example_enhanced example_result semester_columns_def example_row_def)
qed

text \<open>
  C4. The week index does not depend on the weekday on which the term starts. The value
  that lines 114-120 give to a timestamp \<open>t\<close> for a term starting at \<open>start_date\<close> is
  \<open>semester_week start_date t\<close>. Replacing the start date by another date of the same
  Monday-Sunday calendar week leaves it unchanged for every timestamp, and two timestamps
  of the same Monday-Sunday calendar week receive equal values. Start dates are dates
  (midnights), as \<open>fetch_terms\<close> builds them.
\<close>

theorem semester_week_stable:
  "(is_date start_date \<and> is_date start_date' \<and> same_calendar_week start_date start_date' \<longrightarrow>
      semester_week start_date t = semester_week start_date' t) \<and>
   (is_date start_date \<and> same_calendar_week t1 t2 \<longrightarrow>
      semester_week start_date t1 = semester_week start_date t2)"
  by (auto simp: semester_week_date same_calendar_week_index)

theorem semester_week_stable_witness:
  "is_date (19738 * DAY) \<and> is_date (19741 * DAY) \<and>
   same_calendar_week (19738 * DAY) (19741 * DAY) \<and>
   semester_week (19738 * DAY) (19744 * DAY + 36000000000000) = 2 \<and>
   semester_week (19741 * DAY) (19744 * DAY + 36000000000000) = 2 \<and>
   same_calendar_week (19744 * DAY + 36000000000000) (19750 * DAY + 82800000000000) \<and>
   semester_week (19738 * DAY) (19750 * DAY + 82800000000000) = 2"
  using semester_week_stable [of "19738 * DAY" "19741 * DAY" "19744 * DAY + 36000000000000"
      "19744 * DAY + 36000000000000" "19750 * DAY + 82800000000000"]
  by (simp add: evaluation)

text \<open>
  C5. \<open>add_semester_info\<close> is deterministic: two runs on equal input frames and equal term
  lists return equal frames, whatever else the two worlds hold (other objects, what was
  printed before, the files) and whatever the output path.
\<close>

theorem add_semester_info_deterministic:
  assumes "df < length (heap w)" and "df' < length (heap w')"
    and "heap w ! df = heap w' ! df'"
  shows "result_frame (add_semester_info df terms_data output_file_path w) =
         result_frame (add_semester_info df' terms_data output_file_path' w')"
  using assms by (simp add: result_frame_add_semester_info)

theorem add_semester_info_deterministic_witness:
  "(0::nat) < length (heap example_world) \<and> (1::nat) < length (heap other_world) \<and>
   heap example_world ! 0 = heap other_world ! 1 \<and>
   result_frame (add_semester_info 0 example_terms None example_world) =
   result_frame (add_semester_info 1 example_terms (Some ''out.csv'') other_world)"
  using add_semester_info_deterministic [of 0 example_world 1 other_world example_terms None
      "Some ''out.csv''"]
  by (simp add: example_world_def other_world_def)

text \<open>
  C6. Rows that match no term keep the sentinel \<^verbatim>\<open>Unknown\<close> in the frame the loop works
  on, the returned frame is that frame without the \<^verbatim>\<open>Unknown\<close> rows, and every row that
  \<open>add_semester_info\<close> returns, or that \<open>enhance_dataset\<close> returns, has a timestamp within
  the range of some term of the list and a \<open>Semester\<close> other than \<^verbatim>\<open>Unknown\<close>.
\<close>

theorem returned_rows_lie_in_a_term:
  assumes "df < length (heap w)"
  shows "(\<forall>r \<in> set (heap (snd (add_semester_info df terms_data output_file_path w)) ! length (heap w)).
            \<not> within_a_term terms_data r \<longrightarrow> Semester r = Some ''Unknown'') \<and>
         result_frame (add_semester_info df terms_data output_file_path w) =
           filter (\<lambda>r. Semester r \<noteq> Some ''Unknown'')
             (heap (snd (add_semester_info df terms_data output_file_path w)) ! length (heap w)) \<and>
         (\<forall>r \<in> set (result_frame (add_semester_info df terms_data output_file_path w)).
            named r \<and> within_a_term terms_data r) \<and>
         (\<forall>a. fst (enhance_dataset df terms_data output_file_path w) = Inr a \<longrightarrow>
            (\<forall>r \<in> set (heap (snd (enhance_dataset df terms_data output_file_path w)) ! a).
               named r \<and> within_a_term terms_data r))"
proof (intro conjI ballI allI impI)
  fix r
  assume "r \<in> set (heap (snd (add_semester_info df terms_data output_file_path w)) ! length (heap w))"
    and "\<not> within_a_term terms_data r"
  then show "Semester r = Some ''Unknown''"
    using assms by (simp add: add_semester_info_heap labelled_unmatched)
next
  show "result_frame (add_semester_info df terms_data output_file_path w) =
           filter (\<lambda>r. Semester r \<noteq> Some ''Unknown'')
             (heap (snd (add_semester_info df terms_data output_file_path w)) ! length (heap w))"
    using assms
    by (simp add: result_frame_add_semester_info add_semester_info_heap known_def)
next
  fix r assume "r \<in> set (result_frame (add_semester_info df terms_data output_file_path w))"
  then have "r \<in> set (known (labelled_frame terms_data (heap w ! df)))"
    using assms by (simp add: result_frame_add_semester_info)
  then show "named r" and "within_a_term terms_data r"
    using known_labelled_within by blast+
next
  fix a r
  assume a: "fst (enhance_dataset df terms_data output_file_path w) = Inr a"
    and r: "r \<in> set (heap (snd (enhance_dataset df terms_data output_file_path w)) ! a)"
  let ?K = "known (labelled_frame terms_data (normalized (heap w ! df)))"
  from enhance_dataset_heap [OF assms, of terms_data output_file_path] a
  obtain categories where
    "heap (snd (enhance_dataset df terms_data output_file_path w)) ! a =
       with_categories ?K categories"
    by (auto simp: nth_append)
  with r obtain k c where k: "k \<in> set ?K" and rk: "r = k\<lparr>Equipment_Category := Some c\<rparr>"
    using with_categories_member by metis
  from known_labelled_within [OF k] have "named k" and "within_a_term terms_data k" by simp_all
  then show "named r" and "within_a_term terms_data r"
    using rk by (simp_all add: named_def within_a_term_def)
qed

theorem returned_rows_lie_in_a_term_witness:
  "(0::nat) < length (heap example_world) \<and>
   fst (enhance_dataset 0 example_terms None example_world) = Inr 3 \<and>
   (example_row (19744 * DAY + 36000000000000) ''Jacobs Wood Shop'')
      \<lparr>Semester := Some ''Spring 2024'', Semester_Week := Some 2,
        Equipment_Category := Some ''Wood Shop''\<rparr>
     \<in> set (heap (snd (enhance_dataset 0 example_terms None example_world)) ! 3) \<and>
   named ((example_row (19744 * DAY + 36000000000000) ''Jacobs Wood Shop'')
      \<lparr>Semester := Some ''Spring 2024'', Semester_Week := Some 2,
        Equipment_Category := Some ''Wood Shop''\<rparr>) \<and>
   within_a_term example_terms
     ((example_row (19744 * DAY + 36000000000000) ''Jacobs Wood Shop'')
      \<lparr>Semester := Some ''Spring 2024'', Semester_Week := Some 2,
        Equipment_Category := Some ''Wood Shop''\<rparr>) \<and>
   (example_row (19744 * DAY + 36000000000000) ''Jacobs Wood Shop'')
      \<lparr>Semester := Some ''Spring 2024'', Semester_Week := Some 2\<rparr>
     \<in> set (result_frame (add_semester_info 0 example_terms None example_world)) \<and>
   named ((example_row (19744 * DAY + 36000000000000) ''Jacobs Wood Shop'')
      \<lparr>Semester := Some ''Spring 2024'', Semester_Week := Some 2\<rparr>) \<and>
   within_a_term example_terms
     ((example_row (19744 * DAY + 36000000000000) ''Jacobs Wood Shop'')
      \<lparr>Semester := Some ''Spring 2024'', Semester_Week := Some 2\<rparr>)"
proof -
  have h: "(0::nat) < length (heap example_world)" by (simp add: example_world_def)
  note t = returned_rows_lie_in_a_term [OF h, of example_terms None]
  let ?e = "(example_row (19744 * DAY + 36000000000000) ''Jacobs Wood Shop'')
      \<lparr>Semester := Some ''Spring 2024'', Semester_Week := Some 2,
        Equipment_Category := Some ''Wood Shop''\<rparr>"
  let ?a = "(example_row (19744 * DAY + 36000000000000) ''Jacobs Wood Shop'')
      \<lparr>Semester := Some ''Spring 2024'', Semester_Week := Some 2\<rparr>"
  have f: "fst (enhance_dataset 0 example_terms None example_world) = Inr 3"
    using example_enhanced by blast
  have e: "?e \<in> set (heap (snd (enhance_dataset 0 example_terms None example_world)) ! 3)"
    by (simp add: example_enhanced)
  have a: "?a \<in> set (result_frame (add_semester_info 0 example_terms None example_world))"
    by (simp add: example_result)
  have 1: "named ?e \<and> within_a_term example_terms ?e"
    using t f e by blast
  have 2: "named ?a \<and> within_a_term example_terms ?a"
    using t a by blast
  show ?thesis
    using h f e a 1 2 by (intro conjI) blast+
qed

text \<open>
  C7. On weekly statistics with distinct week labels and counts that are not negative,
  \<open>identify_peak_weeks\<close> returns. Its highest week is the label and the average of a row
  whose average is the largest over all weeks. Its lowest week is the label and the
  average of a row whose \<open>num_semesters\<close> is at least 75% of the largest \<open>num_semesters\<close>, and
  whose average is the smallest among such rows only: a week below that threshold is never
  the lowest week.
\<close>

theorem identify_peak_weeks_highest_and_common_lowest:
  assumes "distinct (map week weekly_stats)" and "weekly_stats \<noteq> []"
    and "\<forall>r \<in> set weekly_stats. 0 \<le> num_semesters r"
  shows "\<exists>hi lo.
           identify_peak_weeks weekly_stats =
             Inr ((week hi, avg_usage hi), (week lo, avg_usage lo)) \<and>
           hi \<in> set weekly_stats \<and>
           (\<forall>r \<in> set weekly_stats. avg_usage r \<le> avg_usage hi) \<and>
           lo \<in> set weekly_stats \<and> common_week weekly_stats lo \<and>
           (\<forall>r \<in> set weekly_stats. common_week weekly_stats r \<longrightarrow> avg_usage lo \<le> avg_usage r)"
proof -
  from assms(2) obtain r0 rs where ws: "weekly_stats = r0 # rs" by (cases weekly_stats) auto
  let ?hi = "first_largest r0 rs"
  let ?common = "filter (common_week weekly_stats) weekly_stats"
  have hi: "?hi \<in> set weekly_stats" using first_largest_member [of r0 rs] by (simp add: ws)
  have hi_max: "\<forall>r \<in> set weekly_stats. avg_usage r \<le> avg_usage ?hi"
    using first_largest_ge_all [of r0 rs] by (simp add: ws)
  have hi_loc: "loc_avg_usage weekly_stats (week ?hi) = Inr (avg_usage ?hi)"
    using assms(1) hi by (rule loc_distinct)
  let ?M = "Max (set (map num_semesters weekly_stats))"
  have "?M \<in> set (map num_semesters weekly_stats)"
    using assms(2) by (intro Max_in) simp_all
  then obtain m where m: "m \<in> set weekly_stats" and mM: "num_semesters m = ?M" by auto
  have "0 \<le> ?M" using assms(3) m mM by metis
  then have "(3 / 4 :: rat) * of_int ?M \<le> of_int ?M"
    by (simp add: mult_left_le_one_le)
  then have "common_week weekly_stats m" by (simp add: common_week_def mM)
  then have "m \<in> set ?common" using m by simp
  then obtain c cs where common: "?common = c # cs" by (cases ?common) auto
  let ?lo = "first_smallest c cs"
  have lo_c: "?lo \<in> set ?common" using first_smallest_member [of c cs] by (simp only: common)
  then have lo: "?lo \<in> set weekly_stats" and lo_common: "common_week weekly_stats ?lo"
    by simp_all
  have lo_min: "\<forall>r \<in> set weekly_stats. common_week weekly_stats r \<longrightarrow> avg_usage ?lo \<le> avg_usage r"
  proof (intro ballI impI)
    fix r assume "r \<in> set weekly_stats" and "common_week weekly_stats r"
    then have "r \<in> set ?common" by simp
    then have "r \<in> set (c # cs)" by (simp only: common)
    then show "avg_usage ?lo \<le> avg_usage r" by (rule first_smallest_le)
  qed
  have lo_loc: "loc_avg_usage weekly_stats (week ?lo) = Inr (avg_usage ?lo)"
    using assms(1) lo by (rule loc_distinct)
  have filt: "filter (\<lambda>x. (3 / 4 :: rat) * of_int (series_max (num_semesters r0) (map num_semesters rs))
                 \<le> of_int (num_semesters x)) (r0 # rs) = c # cs"
    using common unfolding ws common_week_series_max .
  have "identify_peak_weeks weekly_stats =
          Inr ((week ?hi, avg_usage ?hi), (week ?lo, avg_usage ?lo))"
    using hi_loc lo_loc filt
    by (simp add: identify_peak_weeks_def idxmax_def idxmin_def ws Let_def del: filter.simps)
  then show ?thesis using hi hi_max lo lo_common lo_min by blast
qed

theorem identify_peak_weeks_highest_and_common_lowest_witness:
  "distinct (map week example_stats) \<and> example_stats \<noteq> [] \<and>
   list_all (\<lambda>r. 0 \<le> num_semesters r) example_stats \<and>
   identify_peak_weeks example_stats = Inr ((2, 61 / 2), (3, 5)) \<and>
   \<not> common_week example_stats \<lparr>week = 4, avg_usage = 1, num_semesters = 2\<rparr> \<and>
   (\<exists>hi \<in> set example_stats. \<exists>lo \<in> set example_stats.
      identify_peak_weeks example_stats =
        Inr ((week hi, avg_usage hi), (week lo, avg_usage lo)) \<and>
      common_week example_stats lo)"
proof -
  have d: "distinct (map week example_stats)" and n: "example_stats \<noteq> []"
    and c: "\<forall>r \<in> set example_stats. 0 \<le> num_semesters r"
    by (simp_all add: example_stats_def)
  have l: "list_all (\<lambda>r. 0 \<le> num_semesters r) example_stats"
    using c by (simp add: list_all_iff)
  have v: "identify_peak_weeks example_stats = Inr ((2, 61 / 2), (3, 5))"
    by (simp add: identify_peak_weeks_def idxmax_def idxmin_def loc_avg_usage_def
        example_stats_def Let_def)
  have x: "\<not> common_week example_stats \<lparr>week = 4, avg_usage = 1, num_semesters = 2\<rparr>"
    by (simp add: common_week_def example_stats_def)
  from identify_peak_weeks_highest_and_common_lowest [OF d n c]
  have "\<exists>hi \<in> set example_stats. \<exists>lo \<in> set example_stats.
      identify_peak_weeks example_stats =
        Inr ((week hi, avg_usage hi), (week lo, avg_usage lo)) \<and>
      common_week example_stats lo"
    by blast
  then show ?thesis using d n l v x by (intro conjI)
qed



text \<open>
  C9. \<open>clean_and_load\<close> returns exactly the distinct rows of the input whose timestamp is
  not in the closed interval from \<open>covid_start\<close> to \<open>covid_end\<close>: the rows it returns are
  those input rows, each once, in the order of the input, and none of them has a timestamp
  \<open>t\<close> with \<open>covid_start \<le> t \<le> covid_end\<close>.
\<close>

theorem clean_and_load_distinct_outside_window:
  "set (clean_and_load csv_rows covid_start covid_end) =
     {r \<in> set csv_rows. \<not> between covid_start covid_end (Timestamp r)} \<and>
   distinct (clean_and_load csv_rows covid_start covid_end) \<and>
   subseq (clean_and_load csv_rows covid_start covid_end) csv_rows \<and>
   (\<forall>r \<in> set (clean_and_load csv_rows covid_start covid_end).
      \<forall>t. Timestamp r = Some t \<longrightarrow> \<not> (covid_start \<le> t \<and> t \<le> covid_end))"
proof (intro conjI)
  show "set (clean_and_load csv_rows covid_start covid_end) =
     {r \<in> set csv_rows. \<not> between covid_start covid_end (Timestamp r)}"
    by (auto simp: clean_and_load_filter drop_duplicates_def drop_duplicates_from_set)
  show "distinct (clean_and_load csv_rows covid_start covid_end)"
    by (simp add: clean_and_load_filter drop_duplicates_def drop_duplicates_from_distinct)
  have "subseq (clean_and_load csv_rows covid_start covid_end) (drop_duplicates csv_rows)"
    by (simp add: clean_and_load_filter)
  then show "subseq (clean_and_load csv_rows covid_start covid_end) csv_rows"
    using drop_duplicates_from_subseq [of "[]" csv_rows]
    by (metis drop_duplicates_def subseq_order.order_trans)
  show "\<forall>r \<in> set (clean_and_load csv_rows covid_start covid_end).
      \<forall>t. Timestamp r = Some t \<longrightarrow> \<not> (covid_start \<le> t \<and> t \<le> covid_end)"
    by (auto simp: clean_and_load_filter between_def)
qed

theorem clean_and_load_distinct_outside_window_witness:
  "clean_and_load covid_rows (18335 * DAY) (18865 * DAY) =
     [example_row (18300 * DAY) ''Jacobs Wood Shop'',
      example_row (18865 * DAY + 1) ''Jacobs Metal Shop''] \<and>
   example_row (18865 * DAY + 1) ''Jacobs Metal Shop''
     \<in> set (clean_and_load covid_rows (18335 * DAY) (18865 * DAY)) \<and>
   \<not> (18335 * DAY \<le> 18865 * DAY + 1 \<and> 18865 * DAY + 1 \<le> 18865 * DAY) \<and>
   distinct (clean_and_load covid_rows (18335 * DAY) (18865 * DAY))"
proof -
  have d: "distinct (clean_and_load covid_rows (18335 * DAY) (18865 * DAY))"
    using clean_and_load_distinct_outside_window [of covid_rows "18335 * DAY" "18865 * DAY"]
    by blast
  show ?thesis using d unfolding covid_rows_cleaned by (simp add: DAY_def)
qed

text \<open>
  C10. \<open>add_semester_info\<close> does not mutate its input: after the call every frame that
  existed before, the caller's among them, is unchanged (the writes go to the copy); and
  the returned frame holds the retained input rows, in order, with every column other than
  \<open>Semester\<close> and \<open>Semester_Week\<close> as in the input. \<open>enhance_dataset\<close> leaves the frames that
  existed before unchanged as well.
\<close>

theorem add_semester_info_leaves_input_unchanged:
  assumes "df < length (heap w)"
  shows "take (length (heap w)) (heap (snd (add_semester_info df terms_data output_file_path w))) =
           heap w \<and>
         heap (snd (add_semester_info df terms_data output_file_path w)) ! df = heap w ! df \<and>
         map untouched_columns (result_frame (add_semester_info df terms_data output_file_path w)) =
           map untouched_columns
             (filter (\<lambda>r. assigned_row terms_data r \<noteq> None) (heap w ! df)) \<and>
         take (length (heap w)) (heap (snd (enhance_dataset df terms_data output_file_path w))) =
           heap w \<and>
         heap (snd (enhance_dataset df terms_data output_file_path w)) ! df = heap w ! df"
proof (intro conjI)
  show "take (length (heap w)) (heap (snd (add_semester_info df terms_data output_file_path w))) =
           heap w"
    using assms by (simp add: add_semester_info_heap)
  show "heap (snd (add_semester_info df terms_data output_file_path w)) ! df = heap w ! df"
    using assms by (simp add: add_semester_info_heap nth_append)
  have "map untouched_columns (List.map_filter (assigned_row terms_data) rows) =
        map untouched_columns (filter (\<lambda>r. assigned_row terms_data r \<noteq> None) rows)"
    for rows :: "'a row list"
  proof (induction rows)
    case Nil
    show ?case by (simp add: List.map_filter_simps)
  next
    case (Cons r rows)
    show ?case
    proof (cases "assigned_row terms_data r")
      case None
      then show ?thesis using Cons by (simp add: List.map_filter_simps)
    next
      case (Some r')
      from assigned_row_Some [OF Some] have "untouched_columns r' = untouched_columns r"
        by (auto simp: untouched_columns_def)
      then show ?thesis using Cons Some by (simp add: List.map_filter_simps)
    qed
  qed
  then show "map untouched_columns
           (result_frame (add_semester_info df terms_data output_file_path w)) =
         map untouched_columns
           (filter (\<lambda>r. assigned_row terms_data r \<noteq> None) (heap w ! df))"
    using assms by (simp add: result_frame_add_semester_info known_labelled)
  from enhance_dataset_heap [OF assms, of terms_data output_file_path]
  obtain X where X: "heap (snd (enhance_dataset df terms_data output_file_path w)) =
           heap w @ [labelled_frame terms_data (normalized (heap w ! df)),
                     known (labelled_frame terms_data (normalized (heap w ! df))), X]"
    by blast
  show "take (length (heap w)) (heap (snd (enhance_dataset df terms_data output_file_path w))) =
           heap w"
    by (simp add: X)
  show "heap (snd (enhance_dataset df terms_data output_file_path w)) ! df = heap w ! df"
    using assms by (simp add: X nth_append)
qed

theorem add_semester_info_leaves_input_unchanged_witness:
  "(0::nat) < length (heap example_world) \<and>
   heap (snd (add_semester_info 0 example_terms None example_world)) ! 0 =
     [example_row (19744 * DAY + 36000000000000) ''Jacobs Wood Shop'',
      example_row (19900 * DAY) ''Jacobs Laser Access''] \<and>
   map untouched_columns (result_frame (add_semester_info 0 example_terms None example_world)) =
     [(Some (19744 * DAY + 36000000000000), Some ''Jacobs Wood Shop'', (), None)]"
proof -
  have h: "(0::nat) < length (heap example_world)" by (simp add: example_world_def)
  have "heap (snd (add_semester_info 0 example_terms None example_world)) ! 0 =
          heap example_world ! 0"
    using add_semester_info_leaves_input_unchanged [OF h, of example_terms None] by blast
  then show ?thesis
    using h by (simp add: example_result untouched_columns_def example_row_def)
      (simp add: example_world_def example_row_def)
qed


end
